theory Spec2Isabelle
  imports Main "HOL-Library.Word"
begin

section \<open>The native migration processor of vmctl (app/vmctl/vm\_native.go)\<close>

text \<open>
  A shallow embedding of \<^verbatim>\<open>vmNativeProcessor\<close>: \<^verbatim>\<open>run\<close>, \<^verbatim>\<open>do\<close>,
  \<^verbatim>\<open>runSingle\<close>, \<^verbatim>\<open>runBackfilling\<close>, \<^verbatim>\<open>stats.String\<close>,
  \<^verbatim>\<open>byteCountSI\<close> and \<^verbatim>\<open>buildMatchWithFilter\<close>.

  The packages the file calls (\<^verbatim>\<open>native\<close>, \<^verbatim>\<open>backoff\<close>, \<^verbatim>\<open>stepper\<close>,
  \<^verbatim>\<open>vm\<close>, \<^verbatim>\<open>promutils\<close>, \<^verbatim>\<open>time\<close>, \<^verbatim>\<open>io\<close>) are not part of the file.
  Their functions are parameters of the model (the record \<open>collab\<close>), and what one
  network transfer does is scripted by an \<open>attempt\<close> value. Mutation of the shared
  \<^verbatim>\<open>stats\<close> object is explicit state passing; the goroutines of
  \<^verbatim>\<open>runBackfilling\<close> are a transition system whose scheduler choices are events.
\<close>

subsection \<open>Data\<close>

text \<open>\<^verbatim>\<open>time.Time\<close>: an instant and the name of its location.\<close>

record gotime =
  unix_nano :: int
  location :: string

text \<open>\<^verbatim>\<open>native.Filter\<close>, with the four fields the file reads or writes.\<close>

record Filter =
  Match :: string
  TimeStart :: string
  TimeEnd :: string
  Chunk :: string

text \<open>\<^verbatim>\<open>native.Client\<close>, with the two fields the file reads.\<close>

record Client =
  Addr :: string
  ExtraLabels :: "string list"

text \<open>
  Go \<^verbatim>\<open>error\<close> values. \<open>Collab\<close> is an error returned by a collaborator;
  every other constructor is one \<^verbatim>\<open>fmt.Errorf\<close> site of the file:
  \<^item> \<open>FailedParseStart\<close>, \<open>FailedParseEnd\<close>: "failed to parse ..., provided: ..." (lines 50, 58);
  \<^item> \<open>FailedDateRanges\<close>: "failed to create date ranges for the given time filters" (line 67);
  \<^item> \<open>FailedGetTenants\<close>: "failed to get tenants" (line 76);
  \<^item> \<open>MigrationFailed\<close>: "migration failed" (line 87);
  \<^item> \<open>FailedMigrate\<close>: "failed to migrate from ... to ... (retry attempts: ...)" (line 105);
  \<^item> \<open>FailedInitExportPipe\<close>: "failed to init export pipe" (line 115);
  \<^item> \<open>FailedWriteInto\<close>: "failed to write into ..." (line 136);
  \<^item> \<open>FailedAddLabels\<close>: "failed to add labels to import path" (line 158);
  \<^item> \<open>CannotGetMetrics\<close>: "cannot get metrics from source ..." (line 182);
  \<^item> \<open>NoMetricsFound\<close>: "no metrics found" (line 186);
  \<^item> \<open>ContextCanceled\<close>: "context canceled" (line 246);
  \<^item> \<open>NativeError\<close>: "native error: ..." (line 248);
  \<^item> \<open>ImportProcessFailed\<close>: "import process failed: ..." (line 263).
\<close>

datatype err =
    Collab string
  | FailedParseStart string err
  | FailedParseEnd string err
  | FailedDateRanges err
  | FailedGetTenants err
  | MigrationFailed err
  | FailedMigrate string string "64 word" err Filter
  | FailedInitExportPipe err
  | FailedWriteInto string err
  | FailedAddLabels err
  | CannotGetMetrics string err
  | NoMetricsFound
  | ContextCanceled
  | NativeError err
  | ImportProcessFailed err

text \<open>The \<^verbatim>\<open>stats\<close> struct (lines 271-277); the mutex is the atomicity of a model step.\<close>

record stats =
  startTime :: gotime
  bytes :: "64 word"
  requests :: "64 word"
  retries :: "64 word"

text \<open>The two \<^verbatim>\<open>logger.Errorf\<close> sites (lines 123 and 239).\<close>

datatype logline =
    LogImportPipe err
  | LogBuildFilters err

text \<open>
  What the functions of the file mutate outside their own call: the shared stats
  \<^verbatim>\<open>p.s\<close> and the error log.
\<close>

record world =
  wstats :: stats
  errlog :: "logline list"

text \<open>
  A transfer handed to \<^verbatim>\<open>p.do\<close> by a worker: the filter, the source URL and the
  destination URL. The model keeps the list of the transfers started so far, in the
  order they were started, as a history of the run.
\<close>

type_synonym transfer = "Filter \<times> string \<times> string"

text \<open>
  \<^verbatim>\<open>vmNativeProcessor\<close> (lines 21-32). The field \<^verbatim>\<open>s\<close> is the \<open>wstats\<close> of the
  world; \<open>maxAttempts\<close> stands for the configuration of \<^verbatim>\<open>p.backoff\<close>.
\<close>

record vmNativeProcessor =
  pfilter :: Filter
  dst :: Client
  src :: Client
  maxAttempts :: nat
  rateLimit :: int
  interCluster :: bool
  cc :: int

definition nativeExportAddr :: string where
  "nativeExportAddr = ''api/v1/export/native''"

definition nativeImportAddr :: string where
  "nativeImportAddr = ''api/v1/import/native''"

subsection \<open>One transfer attempt: runSingle (lines 111-150)\<close>

text \<open>
  What the collaborators of one attempt do: the result of \<^verbatim>\<open>p.src.ExportPipe\<close>,
  of \<^verbatim>\<open>io.Copy\<close> (bytes written, as a signed 64-bit value, and its error),
  of \<^verbatim>\<open>pw.Close\<close>, and of \<^verbatim>\<open>p.dst.ImportPipe\<close> in the import goroutine.
\<close>

record attempt =
  exportErr :: "err option"
  copyWritten :: "64 word"
  copyErr :: "err option"
  closeErr :: "err option"
  importErr :: "err option"

text \<open>
  The rate limiter only wraps the writer (lines 128-132) and changes no result. The
  import goroutine's error is logged and goes nowhere else (lines 122-125); the model
  logs it on the path that waits for the goroutine (\<^verbatim>\<open><-done\<close>, line 147), the only
  path on which the goroutine is known to have finished.
\<close>

definition runSingle :: "vmNativeProcessor \<Rightarrow> attempt \<Rightarrow> world \<Rightarrow> err option \<times> world" where
  "runSingle p a w =
     (case exportErr a of
        Some e \<Rightarrow> (Some (FailedInitExportPipe e), w)
      | None \<Rightarrow>
          (case copyErr a of
             Some e \<Rightarrow> (Some (FailedWriteInto (Addr (dst p)) e), w)
           | None \<Rightarrow>
               (let s = wstats w;
                    w1 = w\<lparr>wstats := s\<lparr>bytes := bytes s + copyWritten a,
                                          requests := requests s + 1\<rparr>\<rparr>
                in case closeErr a of
                     Some e \<Rightarrow> (Some e, w1)
                   | None \<Rightarrow>
                       (case importErr a of
                          Some e \<Rightarrow> (None, w1\<lparr>errlog := errlog w1 @ [LogImportPipe e]\<rparr>)
                        | None \<Rightarrow> (None, w1)))))"

subsection \<open>The retry collaborator\<close>

text \<open>
  Modelled from the spec: \<^verbatim>\<open>backoff.Retry\<close> (package \<^verbatim>\<open>app/vmctl/backoff\<close>) is
  not among the source files. The spec (4.6): it executes the callback repeatedly on
  failure until the callback succeeds, a configured maximum attempt count is exhausted,
  or cancellation fires during the backoff sleep, and it returns the total attempt count
  (at least 1) and the last error. The spec describes the count it returns in a second
  way (8), modelled below as \<open>Retry_failures\<close>.

  The attempts are scripted: \<open>a\<close> is the attempt being made, \<open>rest\<close> the attempts
  that follow while the run is not canceled (cancellation during the backoff sleep is
  the end of the script). \<open>n\<close> counts the attempts made, this one included.
\<close>

fun Retry_from :: "nat \<Rightarrow> nat \<Rightarrow> ('a \<Rightarrow> 's \<Rightarrow> err option \<times> 's) \<Rightarrow> 'a \<Rightarrow> 'a list \<Rightarrow> 's
    \<Rightarrow> (nat \<times> err option) \<times> 's" where
  "Retry_from n m cb a [] st =
     (case cb a st of (r, st') \<Rightarrow> ((n, r), st'))"
| "Retry_from n m cb a (b # rest) st =
     (case cb a st of
        (None, st') \<Rightarrow> ((n, None), st')
      | (Some e, st') \<Rightarrow>
          (if m \<le> n then ((n, Some e), st') else Retry_from (Suc n) m cb b rest st'))"

definition Retry :: "nat \<Rightarrow> ('a \<Rightarrow> 's \<Rightarrow> err option \<times> 's) \<Rightarrow> 'a \<Rightarrow> 'a list \<Rightarrow> 's
    \<Rightarrow> (nat \<times> err option) \<times> 's" where
  "Retry m cb a rest st = Retry_from 1 m cb a rest st"



subsection \<open>One shard: do (lines 97-109)\<close>

text \<open>
  \<open>retry\<close> is \<^verbatim>\<open>p.backoff.Retry\<close>, applied to the closure that calls
  \<^verbatim>\<open>runSingle\<close>; \<open>a\<close> and \<open>rest\<close> script the attempts of this shard. The count it
  returns is added to the unsigned 64-bit \<^verbatim>\<open>retries\<close> counter as it is.
\<close>

definition do ::
  "(nat \<Rightarrow> (attempt \<Rightarrow> world \<Rightarrow> err option \<times> world) \<Rightarrow> attempt \<Rightarrow> attempt list \<Rightarrow> world
      \<Rightarrow> (nat \<times> err option) \<times> world)
   \<Rightarrow> vmNativeProcessor \<Rightarrow> Filter \<Rightarrow> string \<Rightarrow> string \<Rightarrow> attempt \<Rightarrow> attempt list \<Rightarrow> world
   \<Rightarrow> err option \<times> world" where
  "do retry p f srcURL dstURL a rest w =
     (case retry (maxAttempts p) (runSingle p) a rest w of
        ((attempts, r), w1) \<Rightarrow>
          (let s = wstats w1;
               w2 = w1\<lparr>wstats := s\<lparr>retries := retries s + of_nat attempts\<rparr>\<rparr>
           in case r of
                Some e \<Rightarrow> (Some (FailedMigrate srcURL dstURL (of_nat attempts) e f), w2)
              | None \<Rightarrow> (None, w2)))"

subsection \<open>Collaborators\<close>

text \<open>The two yes/no questions put to \<^verbatim>\<open>prompt\<close> (lines 78 and 193).\<close>

datatype question =
    TenantsQuestion "string list"
  | MetricsQuestion nat

text \<open>\<^verbatim>\<open>promutils.Labels\<close>: label names with their values.\<close>

type_synonym labels = "(string \<times> string) list"

text \<open>\<^verbatim>\<open>[]time.Time{start, end}\<close>: one time range.\<close>

type_synonym timerange = "gotime \<times> gotime"

text \<open>
  The functions of other packages that the file calls, as parameters:
  \<^verbatim>\<open>time.Parse(time.RFC3339, .)\<close>, \<^verbatim>\<open>Time.Format(time.RFC3339)\<close>, the two
  readings of \<^verbatim>\<open>time.Now()\<close> (lines 45 and 54), \<^verbatim>\<open>stepper.SplitDateRange\<close>,
  \<^verbatim>\<open>Client.GetSourceTenants\<close>, \<^verbatim>\<open>prompt\<close>,
  \<^verbatim>\<open>vm.AddExtraLabelsToImportPath\<close>, \<^verbatim>\<open>Client.Explore\<close> (the metric names in
  the order the \<^verbatim>\<open>range\<close> loop of line 235 visits them),
  \<^verbatim>\<open>promutils.NewLabelsFromString\<close>, \<^verbatim>\<open>Labels.Set\<close>, \<^verbatim>\<open>Labels.String\<close>
  and \<^verbatim>\<open>Backoff.Retry\<close>.
\<close>

record collab =
  time_Parse :: "string \<Rightarrow> err + gotime"
  time_Format :: "gotime \<Rightarrow> string"
  now_start :: gotime
  now_end :: gotime
  SplitDateRange :: "gotime \<Rightarrow> gotime \<Rightarrow> string \<Rightarrow> err + timerange list"
  GetSourceTenants :: "Filter \<Rightarrow> err + string list"
  prompt :: "question \<Rightarrow> bool"
  AddExtraLabelsToImportPath :: "string \<Rightarrow> string list \<Rightarrow> err + string"
  Explore :: "Filter \<Rightarrow> string \<Rightarrow> err + string list"
  NewLabelsFromString :: "string \<Rightarrow> err + labels"
  labels_Set :: "labels \<Rightarrow> string \<Rightarrow> string \<Rightarrow> labels"
  labels_String :: "labels \<Rightarrow> string"
  backoff_Retry :: "nat \<Rightarrow> (attempt \<Rightarrow> world \<Rightarrow> err option \<times> world) \<Rightarrow> attempt
     \<Rightarrow> attempt list \<Rightarrow> world \<Rightarrow> (nat \<times> err option) \<times> world"

subsection \<open>buildMatchWithFilter (lines 315-323)\<close>

definition buildMatchWithFilter :: "collab \<Rightarrow> string \<Rightarrow> string \<Rightarrow> err + string" where
  "buildMatchWithFilter c flt metricName =
     (case NewLabelsFromString c flt of
        Inl e \<Rightarrow> Inl e
      | Inr ls \<Rightarrow> Inr (labels_String c (labels_Set c ls ''__name__'' metricName)))"

subsection \<open>The worker pool of runBackfilling (lines 214-266)\<close>

text \<open>
  A worker goroutine (lines 220-231) is blocked receiving from \<^verbatim>\<open>filterCh\<close>
  (\<open>Idle\<close>), inside \<^verbatim>\<open>p.do\<close> for a filter (\<open>Busy\<close>), or has returned and run
  \<^verbatim>\<open>wg.Done\<close> (\<open>Exited\<close>).
\<close>

datatype worker = Idle | Busy Filter | Exited

text \<open>
  The producer, the goroutine that called \<^verbatim>\<open>runBackfilling\<close>: in the loops of
  lines 235-256 (\<open>Producing\<close>), in \<^verbatim>\<open>wg.Wait\<close> after \<^verbatim>\<open>close(filterCh)\<close>
  (\<open>Waiting\<close>), or returned with the error it returned.
\<close>

datatype producer = Producing | Waiting | Returned "err option"

text \<open>
  The state of one call of \<^verbatim>\<open>runBackfilling\<close> once its channels exist.
  \<open>metricsLeft\<close> are the metrics the outer loop has not visited, \<open>curMatch\<close> the
  match expression of the metric being sent and \<open>rangesLeft\<close> the ranges of the inner
  loop not sent yet (empty: the producer is at the head of the outer loop).
  \<open>errCh\<close> is the buffer of the error channel, oldest first; \<open>started\<close> is the
  history of the transfers started.
\<close>

record pool =
  pworld :: world
  started :: "transfer list"
  ctxDone :: bool
  metricsLeft :: "string list"
  curMatch :: string
  rangesLeft :: "timerange list"
  prod :: producer
  filterChClosed :: bool
  workers :: "worker list"
  errCh :: "err list"
  errChClosed :: bool

text \<open>What stays fixed during the call: the processor, the two URLs and the ranges.\<close>

record poolcfg =
  proc :: vmNativeProcessor
  srcURL :: string
  dstURL :: string
  cranges :: "timerange list"

text \<open>
  The choices of the scheduler and of the environment:
  \<^item> \<open>Cancel\<close>: the context is canceled from outside;
  \<^item> \<open>ProdNext\<close>: the producer runs the head of the outer loop (lines 235-241) or,
    with no metric left, \<^verbatim>\<open>close(filterCh)\<close> and enters \<^verbatim>\<open>wg.Wait\<close> (258-259);
  \<^item> \<open>SelectCtxDone\<close>, \<open>SelectErr\<close>, \<open>SelectSend i\<close>: the case the
    \<^verbatim>\<open>select\<close> of lines 244-254 takes; the send is received by worker \<open>i\<close>;
  \<^item> \<open>WorkerDone i a rest\<close>: the \<^verbatim>\<open>p.do\<close> of worker \<open>i\<close> returns, its attempts
    having gone as \<open>a\<close> and \<open>rest\<close> say;
  \<^item> \<open>WorkerExit i\<close>: worker \<open>i\<close> finds \<^verbatim>\<open>filterCh\<close> closed and returns;
  \<^item> \<open>Join\<close>: \<^verbatim>\<open>wg.Wait\<close> returns, then lines 260-266.
\<close>

datatype event =
    Cancel
  | ProdNext
  | SelectCtxDone
  | SelectErr
  | SelectSend nat
  | WorkerDone nat attempt "attempt list"
  | WorkerExit nat
  | Join

fun all_exited :: "worker list \<Rightarrow> bool" where
  "all_exited [] = True"
| "all_exited (x # xs) = (x = Exited \<and> all_exited xs)"

text \<open>
  One step; \<open>None\<close> when the event cannot happen in the state. A worker whose
  \<^verbatim>\<open>p.do\<close> fails sends on \<^verbatim>\<open>errCh\<close> and returns (lines 223-226); the channel
  has capacity \<^verbatim>\<open>p.cc\<close> and each of the \<^verbatim>\<open>p.cc\<close> workers sends at most once,
  so the send does not block and is part of the same step. The counters of
  \<^verbatim>\<open>p.do\<close> are additions under the mutex, which commute, so \<^verbatim>\<open>p.do\<close> is one step.
\<close>

fun step :: "collab \<Rightarrow> poolcfg \<Rightarrow> event \<Rightarrow> pool \<Rightarrow> pool option" where
  "step c g Cancel pl = Some (pl\<lparr>ctxDone := True\<rparr>)"
| "step c g ProdNext pl =
     (if prod pl = Producing \<and> rangesLeft pl = [] then
        (case metricsLeft pl of
           [] \<Rightarrow> Some (pl\<lparr>filterChClosed := True, prod := Waiting\<rparr>)
         | s # ss \<Rightarrow>
             (case buildMatchWithFilter c (Match (pfilter (proc g))) s of
                Inl e \<Rightarrow>
                  Some (pl\<lparr>metricsLeft := ss,
                           pworld := (pworld pl)\<lparr>errlog := errlog (pworld pl) @ [LogBuildFilters e]\<rparr>\<rparr>)
              | Inr m \<Rightarrow>
                  Some (pl\<lparr>metricsLeft := ss, curMatch := m, rangesLeft := cranges g\<rparr>)))
      else None)"
| "step c g SelectCtxDone pl =
     (if prod pl = Producing \<and> rangesLeft pl \<noteq> [] \<and> ctxDone pl
      then Some (pl\<lparr>prod := Returned (Some ContextCanceled)\<rparr>)
      else None)"
| "step c g SelectErr pl =
     (if prod pl = Producing \<and> rangesLeft pl \<noteq> [] then
        (case errCh pl of
           [] \<Rightarrow> None
         | e # es \<Rightarrow> Some (pl\<lparr>errCh := es, prod := Returned (Some (NativeError e))\<rparr>))
      else None)"
| "step c g (SelectSend i) pl =
     (if prod pl = Producing then
        (case rangesLeft pl of
           [] \<Rightarrow> None
         | t # ts \<Rightarrow>
             (if i < length (workers pl) \<and> workers pl ! i = Idle then
                (let f = \<lparr>Match = curMatch pl,
                          TimeStart = time_Format c (fst t),
                          TimeEnd = time_Format c (snd t),
                          Chunk = []\<rparr>
                 in Some (pl\<lparr>rangesLeft := ts,
                             workers := (workers pl)[i := Busy f],
                             started := started pl @ [(f, srcURL g, dstURL g)]\<rparr>))
              else None))
      else None)"
| "step c g (WorkerDone i a rest) pl =
     (if i < length (workers pl) then
        (case workers pl ! i of
           Busy f \<Rightarrow>
             (case do (backoff_Retry c) (proc g) f (srcURL g) (dstURL g) a rest (pworld pl) of
                (None, w) \<Rightarrow> Some (pl\<lparr>pworld := w, workers := (workers pl)[i := Idle]\<rparr>)
              | (Some e, w) \<Rightarrow>
                  Some (pl\<lparr>pworld := w, errCh := errCh pl @ [e],
                           workers := (workers pl)[i := Exited]\<rparr>))
         | _ \<Rightarrow> None)
      else None)"
| "step c g (WorkerExit i) pl =
     (if i < length (workers pl) \<and> workers pl ! i = Idle \<and> filterChClosed pl
      then Some (pl\<lparr>workers := (workers pl)[i := Exited]\<rparr>)
      else None)"
| "step c g Join pl =
     (if prod pl = Waiting \<and> all_exited (workers pl) then
        (case errCh pl of
           [] \<Rightarrow> Some (pl\<lparr>errChClosed := True, prod := Returned None\<rparr>)
         | e # es \<Rightarrow>
             Some (pl\<lparr>errChClosed := True, errCh := es,
                      prod := Returned (Some (ImportProcessFailed e))\<rparr>))
      else None)"

text \<open>A schedule, run from a state; \<open>None\<close> when one of its events cannot happen.\<close>

fun exec :: "collab \<Rightarrow> poolcfg \<Rightarrow> event list \<Rightarrow> pool \<Rightarrow> pool option" where
  "exec c g [] pl = Some pl"
| "exec c g (ev # evs) pl =
     (case step c g ev pl of None \<Rightarrow> None | Some pl' \<Rightarrow> exec c g evs pl')"

text \<open>
  The schedule run until the producer returns, which is when \<^verbatim>\<open>runBackfilling\<close>
  returns; \<open>None\<close> when the schedule does not take the producer that far.
\<close>

fun exec_to_return :: "collab \<Rightarrow> poolcfg \<Rightarrow> event list \<Rightarrow> pool \<Rightarrow> pool option" where
  "exec_to_return c g [] pl = (case prod pl of Returned r \<Rightarrow> Some pl | _ \<Rightarrow> None)"
| "exec_to_return c g (ev # evs) pl =
     (case prod pl of
        Returned r \<Rightarrow> Some pl
      | _ \<Rightarrow> (case step c g ev pl of None \<Rightarrow> None | Some pl' \<Rightarrow> exec_to_return c g evs pl'))"

subsection \<open>runBackfilling (lines 152-267)\<close>

text \<open>How a call ends: it returns an error value (\<open>None\<close> is \<^verbatim>\<open>nil\<close>) or panics.\<close>

datatype outcome = Return "err option" | Panic

text \<open>The two URLs (lines 153-165), or the error of line 158.\<close>

definition urls :: "collab \<Rightarrow> vmNativeProcessor \<Rightarrow> string \<Rightarrow> err + string \<times> string" where
  "urls c p tenantID =
     (case AddExtraLabelsToImportPath c nativeImportAddr (ExtraLabels (dst p)) of
        Inl e \<Rightarrow> Inl (FailedAddLabels e)
      | Inr importAddr \<Rightarrow>
          (if interCluster p
           then Inr (Addr (src p) @ ''/select/'' @ tenantID @ ''/prometheus/'' @ nativeExportAddr,
                     Addr (dst p) @ ''/insert/'' @ tenantID @ ''/prometheus/'' @ importAddr)
           else Inr (Addr (src p) @ ''/'' @ nativeExportAddr,
                     Addr (dst p) @ ''/'' @ importAddr)))"

definition pool_init ::
  "vmNativeProcessor \<Rightarrow> string list \<Rightarrow> world \<Rightarrow> transfer list \<Rightarrow> pool" where
  "pool_init p metrics w tr =
     \<lparr>pworld = w, started = tr, ctxDone = False, metricsLeft = metrics, curMatch = [], rangesLeft = [],
      prod = Producing, filterChClosed = False, workers = replicate (nat (cc p)) Idle,
      errCh = [], errChClosed = False\<rparr>"

text \<open>
  Lines 152-215: the call returns early, or panics in \<^verbatim>\<open>make(chan error, p.cc)\<close>
  when \<^verbatim>\<open>p.cc\<close> is negative, or it reaches the pool with the metrics found. The
  progress bar is left out.
\<close>

definition runBackfilling_init ::
  "collab \<Rightarrow> vmNativeProcessor \<Rightarrow> string \<Rightarrow> timerange list \<Rightarrow> bool
   \<Rightarrow> outcome + poolcfg \<times> string list" where
  "runBackfilling_init c p tenantID ranges silent =
     (case urls c p tenantID of
        Inl e \<Rightarrow> Inl (Return (Some e))
      | Inr (s, d) \<Rightarrow>
          (case Explore c (pfilter p) tenantID of
             Inl e \<Rightarrow> Inl (Return (Some (CannotGetMetrics (Addr (src p)) e)))
           | Inr metrics \<Rightarrow>
               (if length metrics = 0 then Inl (Return (Some NoMetricsFound))
                else if \<not> interCluster p \<and> \<not> silent
                        \<and> \<not> prompt c (MetricsQuestion (length metrics))
                then Inl (Return None)
                else if cc p < 0 then Inl Panic
                else Inr (\<lparr>proc = p, srcURL = s, dstURL = d, cranges = ranges\<rparr>, metrics))))"

text \<open>
  The whole call under a schedule of its goroutines. The context starts not canceled;
  a cancellation that came earlier is a schedule that starts with \<open>Cancel\<close>.
\<close>

definition runBackfilling ::
  "collab \<Rightarrow> vmNativeProcessor \<Rightarrow> string \<Rightarrow> timerange list \<Rightarrow> bool \<Rightarrow> event list \<Rightarrow> world
   \<Rightarrow> transfer list \<Rightarrow> (outcome \<times> world \<times> transfer list) option" where
  "runBackfilling c p tenantID ranges silent sched w tr =
     (case runBackfilling_init c p tenantID ranges silent of
        Inl out \<Rightarrow> Some (out, w, tr)
      | Inr (g, metrics) \<Rightarrow>
          (case exec_to_return c g sched (pool_init p metrics w tr) of
             None \<Rightarrow> None
           | Some pl \<Rightarrow>
               (case prod pl of
                  Returned r \<Rightarrow> Some (Return r, pworld pl, started pl)
                | _ \<Rightarrow> None)))"

subsection \<open>run (lines 40-95)\<close>

text \<open>The loop over the tenants (lines 84-89), one schedule for each call.\<close>

fun tenant_loop ::
  "collab \<Rightarrow> vmNativeProcessor \<Rightarrow> timerange list \<Rightarrow> bool \<Rightarrow> string list \<Rightarrow> event list list
   \<Rightarrow> world \<Rightarrow> transfer list \<Rightarrow> (outcome \<times> world \<times> transfer list) option" where
  "tenant_loop c p ranges silent [] scheds w tr = Some (Return None, w, tr)"
| "tenant_loop c p ranges silent (tenantID # ts) scheds w tr =
     (case runBackfilling c p tenantID ranges silent
             (case scheds of [] \<Rightarrow> [] | s # _ \<Rightarrow> s) w tr of
        None \<Rightarrow> None
      | Some (Panic, w', tr') \<Rightarrow> Some (Panic, w', tr')
      | Some (Return (Some e), w', tr') \<Rightarrow> Some (Return (Some (MigrationFailed e)), w', tr')
      | Some (Return None, w', tr') \<Rightarrow> tenant_loop c p ranges silent ts (tl scheds) w' tr')"

text \<open>
  \<^verbatim>\<open>run\<close> under one schedule for each tenant: how it ends, the world it leaves and
  the transfers it started.
\<close>

definition run ::
  "collab \<Rightarrow> vmNativeProcessor \<Rightarrow> bool \<Rightarrow> event list list
   \<Rightarrow> (outcome \<times> world \<times> transfer list) option" where
  "run c p0 silent scheds =
     (let p = (if cc p0 = 0 then p0\<lparr>cc := 1\<rparr> else p0);
          w = \<lparr>wstats = \<lparr>startTime = now_start c, bytes = 0, requests = 0, retries = 0\<rparr>,
               errlog = []\<rparr>
      in case time_Parse c (TimeStart (pfilter p)) of
           Inl e \<Rightarrow> Some (Return (Some (FailedParseStart (TimeStart (pfilter p)) e)), w, [])
         | Inr start \<Rightarrow>
             (case (if TimeEnd (pfilter p) \<noteq> [] then time_Parse c (TimeEnd (pfilter p))
                    else Inr ((now_end c)\<lparr>location := location start\<rparr>)) of
                Inl e \<Rightarrow> Some (Return (Some (FailedParseEnd (TimeEnd (pfilter p)) e)), w, [])
              | Inr endt \<Rightarrow>
                  (case (if Chunk (pfilter p) \<noteq> []
                         then SplitDateRange c start endt (Chunk (pfilter p))
                         else Inr [(start, endt)]) of
                     Inl e \<Rightarrow> Some (Return (Some (FailedDateRanges e)), w, [])
                   | Inr ranges \<Rightarrow>
                       (case (if interCluster p then GetSourceTenants c (pfilter p)
                              else Inr [[]]) of
                          Inl e \<Rightarrow> Some (Return (Some (FailedGetTenants e)), w, [])
                        | Inr tenants \<Rightarrow>
                            (if interCluster p \<and> \<not> silent
                                \<and> \<not> prompt c (TenantsQuestion tenants)
                             then Some (Return None, w, [])
                             else tenant_loop c p ranges silent tenants scheds w [])))))"

subsection \<open>The report: stats.String and byteCountSI (lines 279-313)\<close>

text \<open>
  \<^verbatim>\<open>float64\<close> is a type parameter \<open>'f\<close>, and its operations and the two
  formatting verbs are parameters: the conversions \<^verbatim>\<open>float64(x)\<close> of an unsigned
  64-bit value and of an integer, the quotient, the conversion \<^verbatim>\<open>int64(x)\<close>,
  \<^verbatim>\<open>Duration.Seconds\<close> of a duration in nanoseconds, \<^verbatim>\<open>%.1f\<close> of a float and
  \<^verbatim>\<open>%v\<close> of a duration.
\<close>

record 'f floatops =
  f64_of_uint64 :: "64 word \<Rightarrow> 'f"
  f64_of_int :: "int \<Rightarrow> 'f"
  f64_div :: "'f \<Rightarrow> 'f \<Rightarrow> 'f"
  int64_of_f64 :: "'f \<Rightarrow> 64 word"
  Seconds :: "int \<Rightarrow> 'f"
  fmt_f1 :: "'f \<Rightarrow> string"
  fmt_Duration :: "int \<Rightarrow> string"

text \<open>\<^verbatim>\<open>%d\<close> of a natural number and of an integer.\<close>

fun dec_nat :: "nat \<Rightarrow> string" where
  "dec_nat n =
     (if n < 10 then [''0123456789'' ! n]
      else dec_nat (n div 10) @ [''0123456789'' ! (n mod 10)])"

definition dec_int :: "int \<Rightarrow> string" where
  "dec_int i = (if i < 0 then CHR ''-'' # dec_nat (nat (- i)) else dec_nat (nat i))"

text \<open>The loop of lines 306-310, on the quotient \<open>n\<close>, the divisor and the exponent.\<close>

function si_loop :: "int \<Rightarrow> int \<Rightarrow> nat \<Rightarrow> int \<times> nat" where
  "si_loop n dv ex = (if 1000 \<le> n then si_loop (n div 1000) (dv * 1000) (Suc ex) else (dv, ex))"
  by pat_completeness auto
termination
  by (relation "measure (\<lambda>(n, dv, ex). nat n)") auto

text \<open>
  \<^verbatim>\<open>byteCountSI(b int64)\<close>. From 1000 on \<open>b\<close> is positive, where Go's division is
  \<open>div\<close>; a signed 64-bit \<open>b\<close> gives an exponent of at most 5, inside "kMGTPE".
\<close>

definition byteCountSI :: "'f floatops \<Rightarrow> 64 word \<Rightarrow> string" where
  "byteCountSI fm b =
     (if sint b < 1000 then dec_int (sint b) @ '' B''
      else (case si_loop (sint b div 1000) 1000 0 of
              (dv, ex) \<Rightarrow>
                fmt_f1 fm (f64_div fm (f64_of_int fm (sint b)) (f64_of_int fm dv))
                @ '' '' @ [''kMGTPE'' ! ex] @ ''B''))"

text \<open>
  The local \<^verbatim>\<open>bytesPerS\<close> (lines 285-288), for the duration \<open>elapsed\<close>
  (nanoseconds) that \<^verbatim>\<open>time.Since(s.startTime)\<close> returned. The test
  \<^verbatim>\<open>totalImportDurationS > 0\<close> is the test \<open>0 < elapsed\<close>: \<^verbatim>\<open>Duration.Seconds\<close>
  is positive exactly when the duration is.
\<close>

definition bytesPerS :: "'f floatops \<Rightarrow> stats \<Rightarrow> int \<Rightarrow> string" where
  "bytesPerS fm s elapsed =
     (if 0 < unat (bytes s) \<and> 0 < elapsed
      then byteCountSI fm
             (int64_of_f64 fm (f64_div fm (f64_of_uint64 fm (bytes s)) (Seconds fm elapsed)))
      else byteCountSI fm 0)"

definition String :: "'f floatops \<Rightarrow> stats \<Rightarrow> int \<Rightarrow> string" where
  "String fm s elapsed =
     ''VictoriaMetrics importer stats:'' @ [CHR 0x0A] @
     ''  time spent while importing: '' @ fmt_Duration fm elapsed @ '';'' @ [CHR 0x0A] @
     ''  total bytes: '' @ byteCountSI fm (bytes s) @ '';'' @ [CHR 0x0A] @
     ''  bytes/s: '' @ bytesPerS fm s elapsed @ '';'' @ [CHR 0x0A] @
     ''  requests: '' @ dec_nat (unat (requests s)) @ '';'' @ [CHR 0x0A] @
     ''  requests retries: '' @ dec_nat (unat (retries s)) @ '';''"

declare dec_nat.simps [simp del]
declare si_loop.simps [simp del]

subsection \<open>Auxiliary notions\<close>


text \<open>
  What holds of every state of a call whose base filter cannot be parsed (error \<open>e\<close>),
  started in world \<open>w\<close> with history \<open>tr\<close> and \<open>n\<close> metrics: nothing is being
  sent or transferred, no error is pending, and every metric visited so far has left one
  line in the log.
\<close>

definition skip_inv :: "err \<Rightarrow> world \<Rightarrow> transfer list \<Rightarrow> nat \<Rightarrow> pool \<Rightarrow> bool" where
  "skip_inv e w tr n pl \<longleftrightarrow>
     rangesLeft pl = [] \<and> started pl = tr \<and> errCh pl = []
     \<and> list_all (\<lambda>x. x = Idle \<or> x = Exited) (workers pl)
     \<and> wstats (pworld pl) = wstats w
     \<and> errlog (pworld pl) @ replicate (length (metricsLeft pl)) (LogBuildFilters e)
         = errlog w @ replicate n (LogBuildFilters e)
     \<and> (prod pl = Producing
          \<or> (metricsLeft pl = [] \<and> (prod pl = Waiting \<or> prod pl = Returned None)))"

text \<open>
  The schedule in which the producer visits \<open>n\<close> metrics without sending, closes the
  work channel, the \<open>k\<close> workers return one after the other, and the producer joins.
\<close>

definition skip_schedule :: "nat \<Rightarrow> nat \<Rightarrow> event list" where
  "skip_schedule n k = replicate (Suc n) ProdNext @ map WorkerExit [0..<k] @ [Join]"

subsection \<open>Sample inputs\<close>

definition demo_collab :: collab where
  "demo_collab =
     \<lparr>time_Parse = (\<lambda>s. if s = ''bad'' then Inl (Collab ''cannot parse'')
                         else Inr \<lparr>unix_nano = int (length s), location = ''UTC''\<rparr>),
      time_Format = (\<lambda>t. dec_int (unix_nano t)),
      now_start = \<lparr>unix_nano = 100, location = ''Local''\<rparr>,
      now_end = \<lparr>unix_nano = 200, location = ''Local''\<rparr>,
      SplitDateRange = (\<lambda>s e ch. if ch = ''1h'' then Inr [(s, e)]
                                  else Inl (Collab ''bad step'')),
      GetSourceTenants = (\<lambda>f. Inr [''0:0'', ''1:0'']),
      prompt = (\<lambda>q. True),
      AddExtraLabelsToImportPath = (\<lambda>path ls.
         Inr (path @ concat (map (\<lambda>l. ''?extra_label='' @ l) ls))),
      Explore = (\<lambda>f t. if t = ''1:0'' then Inr [] else Inr [''m1'', ''m2'']),
      NewLabelsFromString = (\<lambda>s. if s = ''{'' then Inl (Collab ''bad filter'') else Inr []),
      labels_Set = (\<lambda>ls k v. (k, v) # ls),
      labels_String = (\<lambda>ls. concat (map (\<lambda>(k, v). k @ ''='' @ v) ls)),
      backoff_Retry = Retry\<rparr>"

definition demo_filter :: Filter where
  "demo_filter = \<lparr>Match = ''{}'', TimeStart = ''2023-01-01T00:00:00Z'', TimeEnd = [], Chunk = []\<rparr>"

definition demo_proc :: vmNativeProcessor where
  "demo_proc =
     \<lparr>pfilter = demo_filter,
      dst = \<lparr>Addr = ''http://dst'', ExtraLabels = []\<rparr>,
      src = \<lparr>Addr = ''http://src'', ExtraLabels = []\<rparr>,
      maxAttempts = 3, rateLimit = 0, interCluster = False, cc = 2\<rparr>"

definition demo_world :: world where
  "demo_world =
     \<lparr>wstats = \<lparr>startTime = \<lparr>unix_nano = 100, location = ''Local''\<rparr>,
                bytes = 0, requests = 0, retries = 0\<rparr>,
      errlog = []\<rparr>"

definition demo_ranges :: "timerange list" where
  "demo_ranges =
     [(\<lparr>unix_nano = 0, location = ''UTC''\<rparr>, \<lparr>unix_nano = 10, location = ''UTC''\<rparr>),
      (\<lparr>unix_nano = 10, location = ''UTC''\<rparr>, \<lparr>unix_nano = 20, location = ''UTC''\<rparr>)]"

text \<open>What \<open>runBackfilling_init\<close> gives for the sample processor and ranges.\<close>

definition demo_cfg :: poolcfg where
  "demo_cfg = \<lparr>proc = demo_proc, srcURL = ''http://src/api/v1/export/native'',
                dstURL = ''http://dst/api/v1/import/native'', cranges = demo_ranges\<rparr>"

text \<open>The sample processor with one extra label, and in intercluster mode.\<close>

definition demo_labelled :: vmNativeProcessor where
  "demo_labelled = demo_proc\<lparr>dst := \<lparr>Addr = ''http://dst'', ExtraLabels = [''env=prod'']\<rparr>\<rparr>"

definition demo_cluster :: vmNativeProcessor where
  "demo_cluster = demo_labelled\<lparr>interCluster := True\<rparr>"

text \<open>The sample processor with a base filter that cannot be parsed.\<close>

definition demo_badfilter :: vmNativeProcessor where
  "demo_badfilter = demo_proc\<lparr>pfilter := demo_filter\<lparr>Match := ''{''\<rparr>\<rparr>"

text \<open>An attempt that copies 7 bytes and succeeds on both sides.\<close>

definition demo_ok :: attempt where
  "demo_ok = \<lparr>exportErr = None, copyWritten = 7, copyErr = None, closeErr = None,
               importErr = None\<rparr>"

text \<open>An attempt whose export request fails.\<close>

definition demo_fail :: attempt where
  "demo_fail = demo_ok\<lparr>exportErr := Some (Collab ''export refused'')\<rparr>"

text \<open>An attempt that copies 7 bytes into the pipe and whose import request then fails.\<close>

definition demo_import_fail :: attempt where
  "demo_import_fail = demo_ok\<lparr>importErr := Some (Collab ''import refused'')\<rparr>"

text \<open>An attempt that copies 7 bytes and whose pipe then fails to close.\<close>

definition demo_close_fail :: attempt where
  "demo_close_fail = demo_ok\<lparr>closeErr := Some (Collab ''close failed'')\<rparr>"

text \<open>
  A state of the sample call: the first metric has been sent in both ranges, worker 0
  has failed on its shard and left its error in the channel, worker 1 is in its
  transfer, and the producer is in the \<^verbatim>\<open>select\<close> for the second metric.
\<close>

definition demo_failed_err :: err where
  "demo_failed_err =
     FailedMigrate ''http://src/api/v1/export/native'' ''http://dst/api/v1/import/native'' 1
       (FailedInitExportPipe (Collab ''export refused''))
       \<lparr>Match = ''__name__=m1'', TimeStart = ''0'', TimeEnd = ''10'', Chunk = []\<rparr>"

definition demo_pool :: pool where
  "demo_pool =
     \<lparr>pworld = demo_world\<lparr>wstats := (wstats demo_world)\<lparr>retries := 1\<rparr>\<rparr>,
      started =
        [(\<lparr>Match = ''__name__=m1'', TimeStart = ''0'', TimeEnd = ''10'', Chunk = []\<rparr>,
          ''http://src/api/v1/export/native'', ''http://dst/api/v1/import/native''),
         (\<lparr>Match = ''__name__=m1'', TimeStart = ''10'', TimeEnd = ''20'', Chunk = []\<rparr>,
          ''http://src/api/v1/export/native'', ''http://dst/api/v1/import/native'')],
      ctxDone = False, metricsLeft = [], curMatch = ''__name__=m2'',
      rangesLeft = demo_ranges, prod = Producing, filterChClosed = False,
      workers = [Exited,
                 Busy \<lparr>Match = ''__name__=m1'', TimeStart = ''10'', TimeEnd = ''20'', Chunk = []\<rparr>],
      errCh = [demo_failed_err], errChClosed = False\<rparr>"

section \<open>Properties\<close>

subsection \<open>runSingle and do\<close>



text \<open>
  C2 (the code departs from the claim). An attempt whose export opens, whose copy into
  the pipe succeeds and whose pipe closes returns \<^verbatim>\<open>nil\<close> although the import side
  failed: the import error is appended to the log and is no part of the result.
\<close>

theorem runSingle_import_failure_returns_nil:
  "runSingle p \<lparr>exportErr = None, copyWritten = n, copyErr = None, closeErr = None,
                 importErr = Some e\<rparr> w
   = (None, w\<lparr>wstats := (wstats w)\<lparr>bytes := bytes (wstats w) + n,
                                     requests := requests (wstats w) + 1\<rparr>,
              errlog := errlog w @ [LogImportPipe e]\<rparr>)"
  by (simp add: runSingle_def Let_def)







lemmas demo_defs =
  demo_collab_def demo_cfg_def demo_proc_def demo_filter_def demo_world_def demo_ranges_def
  demo_fail_def demo_ok_def demo_import_fail_def demo_close_fail_def

lemma replicate_two: "replicate 2 x = [x, x]"
  by (simp add: eval_nat_numeral)

text \<open>
  C4 (the code departs from the claim). In a run of two shards whose copies succeed
  and whose import requests both fail, no transfer completes successfully, yet the run
  returns \<^verbatim>\<open>nil\<close> with \<^verbatim>\<open>requests\<close> at 2 and \<^verbatim>\<open>bytes\<close> at 14: the counters are
  raised after the copy, before the import side is awaited. The second part follows the
  branch of lines 144-146, which is also after the counters: were \<^verbatim>\<open>pw.Close\<close> to
  fail on a first attempt, one shard of 7 bytes would leave \<^verbatim>\<open>requests\<close> at 2 and
  \<^verbatim>\<open>bytes\<close> at 14. An \<^verbatim>\<open>io.PipeWriter\<close> does not fail to close, so the departure
  rests on the first part.
\<close>

theorem requests_count_failed_transfers:
  "(case run demo_collab demo_proc True
           [[ProdNext, SelectSend 0, WorkerDone 0 demo_import_fail [], ProdNext, SelectSend 1,
             WorkerDone 1 demo_import_fail [], ProdNext, WorkerExit 0, WorkerExit 1, Join]] of
      None \<Rightarrow> False
    | Some (out, w, tr) \<Rightarrow>
        out = Return None \<and> length tr = 2
        \<and> errlog w = [LogImportPipe (Collab ''import refused''),
                       LogImportPipe (Collab ''import refused'')]
        \<and> requests (wstats w) = 2 \<and> bytes (wstats w) = 14)
   \<and> (case do Retry demo_proc demo_filter ''s'' ''d'' demo_close_fail [demo_ok] demo_world of
        (r, w) \<Rightarrow> r = None \<and> requests (wstats w) = 2 \<and> bytes (wstats w) = 14)"
  by (simp add: run_def runBackfilling_def runBackfilling_init_def urls_def demo_defs
      pool_init_def buildMatchWithFilter_def do_def Retry_def runSingle_def Let_def
      replicate_two)

subsection \<open>The report\<close>

lemma byteCountSI_zero: "byteCountSI fm 0 = ''0 B''"
  by (simp add: byteCountSI_def dec_int_def dec_nat.simps)

text \<open>The index into "kMGTPE" is in range for every signed 64-bit count.\<close>

lemma si_loop_exp:
  "n < 1000 ^ Suc k \<Longrightarrow> snd (si_loop n dv ex) \<le> ex + k"
proof (induction k arbitrary: n dv ex)
  case 0
  then show ?case by (simp add: si_loop.simps [of n])
next
  case (Suc k)
  show ?case
  proof (cases "1000 \<le> n")
    case True
    from Suc.prems have "n div 1000 < 1000 ^ Suc k" by simp
    from Suc.IH [OF this, of "dv * 1000" "Suc ex"] True
    show ?thesis by (simp add: si_loop.simps [of n])
  next
    case False
    then show ?thesis by (simp add: si_loop.simps [of n])
  qed
qed

lemma byteCountSI_exp_in_range:
  "snd (si_loop (sint (b :: 64 word) div 1000) 1000 0) < length ''kMGTPE''"
proof -
  have "sint b < 2 ^ 63" using sint_lt [of b] by simp
  then have "sint b div 1000 < 1000 ^ Suc 5" by simp
  from si_loop_exp [OF this, of 1000 0] show ?thesis by simp
qed

text \<open>
  C9. The rate in the report is \<^verbatim>\<open>byteCountSI\<close> of the byte count divided by the
  elapsed seconds (the \<^verbatim>\<open>float64\<close> quotient, converted to a signed 64-bit integer)
  when both the byte count and the elapsed time are positive; when the elapsed time is
  zero (or negative) or the byte count is zero, it is "0 B" and no quotient is taken.
  The report always is a string that holds this rate.
\<close>

theorem report_rate:
  "bytesPerS fm s elapsed =
     (if bytes s = 0 \<or> elapsed \<le> 0 then ''0 B''
      else byteCountSI fm
             (int64_of_f64 fm (f64_div fm (f64_of_uint64 fm (bytes s)) (Seconds fm elapsed))))
   \<and> (\<exists>before after. String fm s elapsed
         = before @ ''  bytes/s: '' @ bytesPerS fm s elapsed @ '';'' @ after)"
proof
  show "bytesPerS fm s elapsed =
     (if bytes s = 0 \<or> elapsed \<le> 0 then ''0 B''
      else byteCountSI fm
             (int64_of_f64 fm (f64_div fm (f64_of_uint64 fm (bytes s)) (Seconds fm elapsed))))"
    by (auto simp: bytesPerS_def byteCountSI_zero unat_gt_0)
  show "\<exists>before after. String fm s elapsed
         = before @ ''  bytes/s: '' @ bytesPerS fm s elapsed @ '';'' @ after"
    unfolding String_def
    by (rule exI [of _ "''VictoriaMetrics importer stats:'' @ [CHR 0x0A] @
     ''  time spent while importing: '' @ fmt_Duration fm elapsed @ '';'' @ [CHR 0x0A] @
     ''  total bytes: '' @ byteCountSI fm (bytes s) @ '';'' @ [CHR 0x0A]"],
        rule exI [of _ "[CHR 0x0A] @
     ''  requests: '' @ dec_nat (unat (requests s)) @ '';'' @ [CHR 0x0A] @
     ''  requests retries: '' @ dec_nat (unat (retries s)) @ '';''"]) simp
qed

subsection \<open>run and the first part of runBackfilling\<close>

text \<open>
  C7. When the start time cannot be parsed, or an end time is given and cannot be
  parsed, or a chunk is given and \<^verbatim>\<open>SplitDateRange\<close> rejects it for every start and
  end, \<^verbatim>\<open>run\<close> returns the corresponding error whatever the schedules are: no
  transfer has been started, the log is empty and the stats hold the start time and
  three zero counters.
\<close>

theorem config_error_no_transfer:
  assumes "isl (time_Parse c (TimeStart (pfilter p)))
    \<or> (TimeEnd (pfilter p) \<noteq> [] \<and> isl (time_Parse c (TimeEnd (pfilter p))))
    \<or> (Chunk (pfilter p) \<noteq> [] \<and> (\<forall>s e. isl (SplitDateRange c s e (Chunk (pfilter p)))))"
  shows "\<exists>e x. run c p silent scheds
      = Some (Return (Some e),
              \<lparr>wstats = \<lparr>startTime = now_start c, bytes = 0, requests = 0, retries = 0\<rparr>,
               errlog = []\<rparr>, [])
    \<and> (e = FailedParseStart (TimeStart (pfilter p)) x
        \<or> e = FailedParseEnd (TimeEnd (pfilter p)) x
        \<or> e = FailedDateRanges x)"
proof (cases "time_Parse c (TimeStart (pfilter p))")
  case (Inl e)
  then show ?thesis by (auto simp: run_def Let_def)
next
  case start: (Inr start)
  show ?thesis
  proof (cases "TimeEnd (pfilter p) \<noteq> [] \<and> isl (time_Parse c (TimeEnd (pfilter p)))")
    case True
    then obtain e where "time_Parse c (TimeEnd (pfilter p)) = Inl e"
      by (auto simp: isl_def)
    with True start show ?thesis by (auto simp: run_def Let_def)
  next
    case False
    with assms start have ch: "Chunk (pfilter p) \<noteq> []"
      and bad: "\<And>s e. isl (SplitDateRange c s e (Chunk (pfilter p)))"
      by auto
    obtain endt where endt: "(if TimeEnd (pfilter p) \<noteq> [] then time_Parse c (TimeEnd (pfilter p))
                    else Inr ((now_end c)\<lparr>location := location start\<rparr>)) = Inr endt"
      using False
      by (cases "TimeEnd (pfilter p) = []"; cases "time_Parse c (TimeEnd (pfilter p))") auto
    obtain e where "SplitDateRange c start endt (Chunk (pfilter p)) = Inl e"
      using bad [of start endt] by (auto simp: isl_def)
    with start endt ch show ?thesis
      by (auto simp: run_def Let_def)
  qed
qed

theorem config_error_no_transfer_witness:
  "isl (time_Parse demo_collab (TimeStart (pfilter
      (demo_proc\<lparr>pfilter := demo_filter\<lparr>TimeStart := ''bad''\<rparr>\<rparr>))))
   \<and> (\<exists>x. run demo_collab (demo_proc\<lparr>pfilter := demo_filter\<lparr>TimeStart := ''bad''\<rparr>\<rparr>) True
         [[ProdNext, SelectSend 0]]
       = Some (Return (Some (FailedParseStart ''bad'' x)),
           \<lparr>wstats = \<lparr>startTime = now_start demo_collab, bytes = 0, requests = 0, retries = 0\<rparr>,
             errlog = []\<rparr>, []))
   \<and> TimeEnd (pfilter (demo_proc\<lparr>pfilter := demo_filter\<lparr>TimeEnd := ''bad''\<rparr>\<rparr>)) \<noteq> []
   \<and> isl (time_Parse demo_collab (TimeEnd (pfilter
      (demo_proc\<lparr>pfilter := demo_filter\<lparr>TimeEnd := ''bad''\<rparr>\<rparr>))))
   \<and> (\<exists>x. run demo_collab (demo_proc\<lparr>pfilter := demo_filter\<lparr>TimeEnd := ''bad''\<rparr>\<rparr>) True
         [[ProdNext, SelectSend 0]]
       = Some (Return (Some (FailedParseEnd ''bad'' x)),
           \<lparr>wstats = \<lparr>startTime = now_start demo_collab, bytes = 0, requests = 0, retries = 0\<rparr>,
             errlog = []\<rparr>, []))
   \<and> Chunk (pfilter (demo_proc\<lparr>pfilter := demo_filter\<lparr>Chunk := ''1 fortnight''\<rparr>\<rparr>)) \<noteq> []
   \<and> (\<forall>s e. isl (SplitDateRange demo_collab s e (Chunk (pfilter
      (demo_proc\<lparr>pfilter := demo_filter\<lparr>Chunk := ''1 fortnight''\<rparr>\<rparr>)))))
   \<and> (\<exists>x. run demo_collab (demo_proc\<lparr>pfilter := demo_filter\<lparr>Chunk := ''1 fortnight''\<rparr>\<rparr>) True
         [[ProdNext, SelectSend 0]]
       = Some (Return (Some (FailedDateRanges x)),
           \<lparr>wstats = \<lparr>startTime = now_start demo_collab, bytes = 0, requests = 0, retries = 0\<rparr>,
             errlog = []\<rparr>, []))"
proof -
  let ?p1 = "demo_proc\<lparr>pfilter := demo_filter\<lparr>TimeStart := ''bad''\<rparr>\<rparr>"
  let ?p2 = "demo_proc\<lparr>pfilter := demo_filter\<lparr>TimeEnd := ''bad''\<rparr>\<rparr>"
  let ?p3 = "demo_proc\<lparr>pfilter := demo_filter\<lparr>Chunk := ''1 fortnight''\<rparr>\<rparr>"
  have a: "isl (time_Parse demo_collab (TimeStart (pfilter ?p1)))"
    by (simp add: demo_collab_def)
  have b: "TimeEnd (pfilter ?p2) \<noteq> [] \<and> isl (time_Parse demo_collab (TimeEnd (pfilter ?p2)))"
    by (simp add: demo_collab_def)
  have c: "Chunk (pfilter ?p3) \<noteq> []
     \<and> (\<forall>s e. isl (SplitDateRange demo_collab s e (Chunk (pfilter ?p3))))"
    by (simp add: demo_collab_def)
  have r1: "\<exists>x. run demo_collab ?p1 True [[ProdNext, SelectSend 0]]
       = Some (Return (Some (FailedParseStart ''bad'' x)),
           \<lparr>wstats = \<lparr>startTime = now_start demo_collab, bytes = 0, requests = 0, retries = 0\<rparr>,
             errlog = []\<rparr>, [])"
    using config_error_no_transfer [of demo_collab ?p1 True "[[ProdNext, SelectSend 0]]"] a
    by (auto simp: demo_filter_def demo_collab_def run_def)
  have r2: "\<exists>x. run demo_collab ?p2 True [[ProdNext, SelectSend 0]]
       = Some (Return (Some (FailedParseEnd ''bad'' x)),
           \<lparr>wstats = \<lparr>startTime = now_start demo_collab, bytes = 0, requests = 0, retries = 0\<rparr>,
             errlog = []\<rparr>, [])"
    using config_error_no_transfer [of demo_collab ?p2 True "[[ProdNext, SelectSend 0]]"] b
    by (auto simp: demo_filter_def demo_collab_def run_def)
  have r3: "\<exists>x. run demo_collab ?p3 True [[ProdNext, SelectSend 0]]
       = Some (Return (Some (FailedDateRanges x)),
           \<lparr>wstats = \<lparr>startTime = now_start demo_collab, bytes = 0, requests = 0, retries = 0\<rparr>,
             errlog = []\<rparr>, [])"
    using config_error_no_transfer [of demo_collab ?p3 True "[[ProdNext, SelectSend 0]]"] c
    by (auto simp: demo_filter_def demo_collab_def run_def)
  from a b c r1 r2 r3 show ?thesis by blast
qed

text \<open>
  C6. When the import path is built and \<^verbatim>\<open>Explore\<close> returns no metric for a tenant,
  \<^verbatim>\<open>runBackfilling\<close> returns the error "no metrics found" for that tenant, whatever
  the schedule is, without changing the world or starting a transfer, and the loop over
  the tenants stops there with "migration failed: no metrics found".
\<close>

theorem no_metrics_found:
  assumes "AddExtraLabelsToImportPath c nativeImportAddr (ExtraLabels (dst p)) = Inr ia"
    and "Explore c (pfilter p) t = Inr []"
  shows "runBackfilling c p t ranges silent sched w tr = Some (Return (Some NoMetricsFound), w, tr)
    \<and> tenant_loop c p ranges silent (t # ts) scheds w tr
        = Some (Return (Some (MigrationFailed NoMetricsFound)), w, tr)"
  using assms by (simp add: runBackfilling_def runBackfilling_init_def urls_def)

theorem no_metrics_found_witness:
  "AddExtraLabelsToImportPath demo_collab nativeImportAddr (ExtraLabels (dst demo_proc))
     = Inr nativeImportAddr
   \<and> Explore demo_collab (pfilter demo_proc) ''1:0'' = Inr []
   \<and> runBackfilling demo_collab demo_proc ''1:0'' demo_ranges True [ProdNext] demo_world []
     = Some (Return (Some NoMetricsFound), demo_world, [])
   \<and> tenant_loop demo_collab demo_proc demo_ranges True [''1:0'', ''0:0''] [] demo_world []
     = Some (Return (Some (MigrationFailed NoMetricsFound)), demo_world, [])"
proof -
  have h1: "AddExtraLabelsToImportPath demo_collab nativeImportAddr (ExtraLabels (dst demo_proc))
     = Inr nativeImportAddr"
    by (simp add: demo_collab_def demo_proc_def)
  have h2: "Explore demo_collab (pfilter demo_proc) ''1:0'' = Inr []"
    by (simp add: demo_collab_def)
  from no_metrics_found [OF h1 h2] h1 h2 show ?thesis by simp
qed

text \<open>Every transfer a call starts carries the two URLs of the call.\<close>

lemma step_started:
  "step c g ev pl = Some pl' \<Longrightarrow>
   started pl' = started pl \<or> (\<exists>f. started pl' = started pl @ [(f, srcURL g, dstURL g)])"
  by (cases ev)
     (auto simp: Let_def split: if_splits list.splits worker.splits option.splits prod.splits
        sum.splits)

lemma exec_started:
  "exec c g evs pl = Some pl' \<Longrightarrow>
   \<exists>new. started pl' = started pl @ new \<and> (\<forall>x\<in>set new. snd x = (srcURL g, dstURL g))"
proof (induction evs arbitrary: pl)
  case Nil
  then show ?case by simp
next
  case (Cons ev evs)
  then obtain pl1 where s: "step c g ev pl = Some pl1" and e: "exec c g evs pl1 = Some pl'"
    by (auto split: option.splits)
  from Cons.IH [OF e] obtain new where n: "started pl' = started pl1 @ new"
    "\<forall>x\<in>set new. snd x = (srcURL g, dstURL g)" by blast
  from step_started [OF s] show ?case
  proof
    assume "started pl1 = started pl"
    with n show ?thesis by auto
  next
    assume "\<exists>f. started pl1 = started pl @ [(f, srcURL g, dstURL g)]"
    then obtain f where "started pl1 = started pl @ [(f, srcURL g, dstURL g)]" ..
    with n have "started pl' = started pl @ ((f, srcURL g, dstURL g) # new)"
      "\<forall>x\<in>set ((f, srcURL g, dstURL g) # new). snd x = (srcURL g, dstURL g)" by auto
    then show ?thesis by blast
  qed
qed

text \<open>
  C8. With the import path \<^verbatim>\<open>api/v1/import/native\<close> followed by the query
  parameters \<open>q\<close> of the extra labels (none: \<open>q\<close> empty), the URLs of a call for
  tenant \<open>t\<close> are \<^verbatim>\<open>{src}/api/v1/export/native\<close> and
  \<^verbatim>\<open>{dst}/api/v1/import/native\<close> with \<open>q\<close> in single-tenant mode, and
  \<^verbatim>\<open>{src}/select/{t}/prometheus/api/v1/export/native\<close> and
  \<^verbatim>\<open>{dst}/insert/{t}/prometheus/api/v1/import/native\<close> with \<open>q\<close> in intercluster
  mode; and every transfer the call starts, under any schedule, uses these two URLs.
\<close>

theorem export_import_urls:
  assumes "AddExtraLabelsToImportPath c nativeImportAddr (ExtraLabels (dst p))
             = Inr (nativeImportAddr @ q)"
  shows "urls c p t = Inr
     (if interCluster p
      then (Addr (src p) @ ''/select/'' @ t @ ''/prometheus/api/v1/export/native'',
            Addr (dst p) @ ''/insert/'' @ t @ ''/prometheus/api/v1/import/native'' @ q)
      else (Addr (src p) @ ''/api/v1/export/native'',
            Addr (dst p) @ ''/api/v1/import/native'' @ q))
   \<and> (\<forall>g ms evs w tr pl.
        runBackfilling_init c p t ranges silent = Inr (g, ms)
        \<and> exec c g evs (pool_init p ms w tr) = Some pl
        \<longrightarrow> (\<exists>new. started pl = tr @ new \<and> (\<forall>x\<in>set new. Inr (snd x) = urls c p t)))"
proof (intro conjI allI impI)
  show "urls c p t = Inr
     (if interCluster p
      then (Addr (src p) @ ''/select/'' @ t @ ''/prometheus/api/v1/export/native'',
            Addr (dst p) @ ''/insert/'' @ t @ ''/prometheus/api/v1/import/native'' @ q)
      else (Addr (src p) @ ''/api/v1/export/native'',
            Addr (dst p) @ ''/api/v1/import/native'' @ q))"
    using assms by (simp add: urls_def nativeImportAddr_def nativeExportAddr_def)
next
  fix g ms evs w tr pl
  assume h: "runBackfilling_init c p t ranges silent = Inr (g, ms)
        \<and> exec c g evs (pool_init p ms w tr) = Some pl"
  then have u: "urls c p t = Inr (srcURL g, dstURL g)"
    by (auto simp: runBackfilling_init_def split: sum.splits if_splits)
  from h exec_started [of c g evs "pool_init p ms w tr" pl]
  show "\<exists>new. started pl = tr @ new \<and> (\<forall>x\<in>set new. Inr (snd x) = urls c p t)"
    by (simp add: u pool_init_def)
qed

theorem export_import_urls_witness:
  "AddExtraLabelsToImportPath demo_collab nativeImportAddr (ExtraLabels (dst demo_labelled))
     = Inr (nativeImportAddr @ ''?extra_label=env=prod'')
   \<and> urls demo_collab demo_labelled [] =
       Inr (''http://src/api/v1/export/native'',
            ''http://dst/api/v1/import/native?extra_label=env=prod'')
   \<and> AddExtraLabelsToImportPath demo_collab nativeImportAddr (ExtraLabels (dst demo_cluster))
     = Inr (nativeImportAddr @ ''?extra_label=env=prod'')
   \<and> urls demo_collab demo_cluster ''0:0'' =
       Inr (''http://src/select/0:0/prometheus/api/v1/export/native'',
            ''http://dst/insert/0:0/prometheus/api/v1/import/native?extra_label=env=prod'')
   \<and> (\<exists>g ms pl. runBackfilling_init demo_collab demo_cluster ''0:0'' demo_ranges True = Inr (g, ms)
        \<and> exec demo_collab g [ProdNext, SelectSend 0, SelectSend 1]
             (pool_init demo_cluster ms demo_world []) = Some pl
        \<and> map snd (started pl) =
            [(''http://src/select/0:0/prometheus/api/v1/export/native'',
              ''http://dst/insert/0:0/prometheus/api/v1/import/native?extra_label=env=prod''),
             (''http://src/select/0:0/prometheus/api/v1/export/native'',
              ''http://dst/insert/0:0/prometheus/api/v1/import/native?extra_label=env=prod'')])"
proof -
  have h1: "AddExtraLabelsToImportPath demo_collab nativeImportAddr
      (ExtraLabels (dst demo_labelled)) = Inr (nativeImportAddr @ ''?extra_label=env=prod'')"
    by (simp add: demo_collab_def demo_labelled_def)
  have h2: "AddExtraLabelsToImportPath demo_collab nativeImportAddr
      (ExtraLabels (dst demo_cluster)) = Inr (nativeImportAddr @ ''?extra_label=env=prod'')"
    by (simp add: demo_collab_def demo_labelled_def demo_cluster_def)
  have u1: "urls demo_collab demo_labelled [] =
       Inr (''http://src/api/v1/export/native'',
            ''http://dst/api/v1/import/native?extra_label=env=prod'')"
    using export_import_urls [OF h1, of "[]"]
    by (simp add: demo_labelled_def demo_proc_def)
  have u2: "urls demo_collab demo_cluster ''0:0'' =
       Inr (''http://src/select/0:0/prometheus/api/v1/export/native'',
            ''http://dst/insert/0:0/prometheus/api/v1/import/native?extra_label=env=prod'')"
    using export_import_urls [OF h2, of "''0:0''"]
    by (simp add: demo_cluster_def demo_labelled_def demo_proc_def)
  let ?g = "\<lparr>proc = demo_cluster,
      srcURL = ''http://src/select/0:0/prometheus/api/v1/export/native'',
      dstURL = ''http://dst/insert/0:0/prometheus/api/v1/import/native?extra_label=env=prod'',
      cranges = demo_ranges\<rparr>"
  have i: "runBackfilling_init demo_collab demo_cluster ''0:0'' demo_ranges True
      = Inr (?g, [''m1'', ''m2''])"
    by (simp add: runBackfilling_init_def u2)
       (simp add: demo_collab_def demo_cluster_def demo_labelled_def demo_proc_def)
  have "\<exists>pl. exec demo_collab ?g [ProdNext, SelectSend 0, SelectSend 1]
             (pool_init demo_cluster [''m1'', ''m2''] demo_world []) = Some pl
        \<and> map snd (started pl) =
            [(''http://src/select/0:0/prometheus/api/v1/export/native'',
              ''http://dst/insert/0:0/prometheus/api/v1/import/native?extra_label=env=prod''),
             (''http://src/select/0:0/prometheus/api/v1/export/native'',
              ''http://dst/insert/0:0/prometheus/api/v1/import/native?extra_label=env=prod'')]"
    by (simp add: pool_init_def demo_cluster_def demo_labelled_def demo_proc_def
        demo_filter_def demo_ranges_def demo_collab_def buildMatchWithFilter_def replicate_two
        Let_def)
  then obtain pl where x: "exec demo_collab ?g [ProdNext, SelectSend 0, SelectSend 1]
             (pool_init demo_cluster [''m1'', ''m2''] demo_world []) = Some pl"
        "map snd (started pl) =
            [(''http://src/select/0:0/prometheus/api/v1/export/native'',
              ''http://dst/insert/0:0/prometheus/api/v1/import/native?extra_label=env=prod''),
             (''http://src/select/0:0/prometheus/api/v1/export/native'',
              ''http://dst/insert/0:0/prometheus/api/v1/import/native?extra_label=env=prod'')]"
    by (elim exE conjE)
  show ?thesis
    by (intro conjI exI [of _ ?g] exI [of _ "[''m1'', ''m2'']"] exI [of _ pl])
       (rule h1 h2 u1 u2 i x)+
qed

subsection \<open>The worker pool\<close>

text \<open>Once the producer has returned, it stays returned and nothing more is started.\<close>

lemma step_returned:
  "prod pl = Returned r \<Longrightarrow> step c g ev pl = Some pl'
   \<Longrightarrow> prod pl' = Returned r \<and> started pl' = started pl
     \<and> filterChClosed pl' = filterChClosed pl \<and> length (workers pl') = length (workers pl)"
  by (cases ev) (auto split: if_splits list.splits worker.splits option.splits prod.splits)

lemma exec_returned:
  "prod pl = Returned r \<Longrightarrow> exec c g evs pl = Some pl'
   \<Longrightarrow> prod pl' = Returned r \<and> started pl' = started pl
     \<and> filterChClosed pl' = filterChClosed pl \<and> length (workers pl') = length (workers pl)"
proof (induction evs arbitrary: pl)
  case Nil
  then show ?case by simp
next
  case (Cons ev evs)
  then obtain pl1 where s: "step c g ev pl = Some pl1" and e: "exec c g evs pl1 = Some pl'"
    by (auto split: option.splits)
  from step_returned [OF Cons.prems(1) s] Cons.IH [OF _ e]
  show ?case by simp
qed

text \<open>
  After a return that left the work channel open, a worker blocked on the channel stays
  blocked: nothing sends to it and nothing closes the channel.
\<close>

lemma step_idle_stays:
  "prod pl = Returned r \<Longrightarrow> \<not> filterChClosed pl \<Longrightarrow> i < length (workers pl)
   \<Longrightarrow> workers pl ! i = Idle \<Longrightarrow> step c g ev pl = Some pl'
   \<Longrightarrow> workers pl' ! i = Idle"
  by (cases ev)
     (auto simp: nth_list_update split: if_splits list.splits worker.splits option.splits prod.splits)

lemma exec_idle_stays:
  "prod pl = Returned r \<Longrightarrow> \<not> filterChClosed pl \<Longrightarrow> i < length (workers pl)
   \<Longrightarrow> workers pl ! i = Idle \<Longrightarrow> exec c g evs pl = Some pl'
   \<Longrightarrow> workers pl' ! i = Idle"
proof (induction evs arbitrary: pl)
  case Nil
  then show ?case by simp
next
  case (Cons ev evs)
  then obtain pl1 where s: "step c g ev pl = Some pl1" and e: "exec c g evs pl1 = Some pl'"
    by (auto split: option.splits)
  have r1: "prod pl1 = Returned r" "\<not> filterChClosed pl1" "i < length (workers pl1)"
    using step_returned [OF Cons.prems(1) s] Cons.prems(2,3) by simp_all
  have i1: "workers pl1 ! i = Idle"
    by (rule step_idle_stays [OF Cons.prems(1-4) s])
  show ?case by (rule Cons.IH [OF r1 i1 e])
qed

lemma step_busy_can_finish:
  "i < length (workers pl) \<Longrightarrow> workers pl ! i = Busy f
   \<Longrightarrow> step c g (WorkerDone i a rest) pl \<noteq> None"
  by (auto split: prod.splits option.splits)

lemma demo_init:
  "runBackfilling_init demo_collab demo_proc [] demo_ranges True = Inr (demo_cfg, [''m1'', ''m2''])"
  by (simp add: runBackfilling_init_def urls_def demo_collab_def demo_proc_def demo_cfg_def
      nativeImportAddr_def nativeExportAddr_def)

lemma demo_pool_reached:
  "exec demo_collab demo_cfg
     [ProdNext, SelectSend 0, WorkerDone 0 demo_fail [], SelectSend 1, ProdNext]
     (pool_init demo_proc [''m1'', ''m2''] demo_world []) = Some demo_pool"
  by (simp add: demo_defs demo_pool_def demo_failed_err_def
      pool_init_def buildMatchWithFilter_def do_def Retry_def runSingle_def dec_int_def
      dec_nat.simps Let_def replicate_two)

text \<open>
  C5. When the \<^verbatim>\<open>select\<close> of the producer takes the error case or the
  cancellation case, the producer returns an error in that very step, without touching
  the workers or starting a transfer; whatever happens afterwards, the producer stays
  returned, the list of transfers started stays as it was, and every worker that is
  still in a transfer can finish it.
\<close>

theorem fail_fast:
  assumes "ev = SelectErr \<or> ev = SelectCtxDone"
    and "step c g ev pl = Some pl1"
    and "exec c g evs pl1 = Some pl2"
  shows "(\<exists>e. prod pl1 = Returned (Some e)) \<and> prod pl2 = prod pl1
    \<and> started pl1 = started pl \<and> started pl2 = started pl
    \<and> workers pl1 = workers pl
    \<and> (\<forall>i f a rest. i < length (workers pl2) \<and> workers pl2 ! i = Busy f
          \<longrightarrow> step c g (WorkerDone i a rest) pl2 \<noteq> None)"
proof -
  from assms(1,2) obtain e where r: "prod pl1 = Returned (Some e)"
    and s: "started pl1 = started pl" and w: "workers pl1 = workers pl"
    by (auto split: if_splits list.splits)
  from exec_returned [OF r assms(3)] r s w step_busy_can_finish
  show ?thesis by auto
qed

theorem fail_fast_witness:
  "(SelectErr = SelectErr \<or> SelectErr = SelectCtxDone)
   \<and> exec demo_collab demo_cfg
       [ProdNext, SelectSend 0, WorkerDone 0 demo_fail [], SelectSend 1, ProdNext]
       (pool_init demo_proc [''m1'', ''m2''] demo_world []) = Some demo_pool
   \<and> (\<exists>pl1 pl2. step demo_collab demo_cfg SelectErr demo_pool = Some pl1
        \<and> exec demo_collab demo_cfg [Cancel, WorkerDone 1 demo_ok []] pl1 = Some pl2
        \<and> prod pl1 = Returned (Some (NativeError demo_failed_err))
        \<and> prod pl2 = prod pl1 \<and> started pl2 = started demo_pool
        \<and> length (started demo_pool) = 2
        \<and> workers pl2 = [Exited, Idle])"
proof -
  obtain pl1 where s: "step demo_collab demo_cfg SelectErr demo_pool = Some pl1"
    and p1: "prod pl1 = Returned (Some (NativeError demo_failed_err))"
    by (simp add: demo_pool_def demo_ranges_def)
  obtain pl2 where e: "exec demo_collab demo_cfg [Cancel, WorkerDone 1 demo_ok []] pl1 = Some pl2"
    and w2: "workers pl2 = [Exited, Idle]"
    using s by (auto simp: demo_pool_def demo_defs do_def Retry_def runSingle_def Let_def)
  have d: "SelectErr = SelectErr \<or> SelectErr = SelectCtxDone" by simp
  from fail_fast [OF d s e] s e p1 w2 demo_pool_reached
  show ?thesis by (simp add: demo_pool_def)
qed

lemma two_idle: "length xs = 2 \<Longrightarrow> xs ! 0 = Idle \<Longrightarrow> xs ! 1 = Idle \<Longrightarrow> xs = [Idle, Idle]"
  by (cases xs; cases "tl xs") auto

text \<open>
  C1 (the code departs from the claim). In the sample call with two workers, when the
  producer observes the cancellation, the call returns "context canceled" with the work
  channel open and both workers blocked receiving from it, and under every further
  schedule they stay blocked and the channel stays open. When the producer observes the
  error of worker 0, it returns "native error" with the channel open while worker 1 is in
  a transfer; worker 1 finishes, blocks on the channel, and stays blocked under every
  further schedule. Neither return closes the channel or waits for the workers.
\<close>

theorem early_return_leaves_workers_blocked:
  "runBackfilling_init demo_collab demo_proc [] demo_ranges True
     = Inr (demo_cfg, [''m1'', ''m2''])
   \<and> runBackfilling demo_collab demo_proc [] demo_ranges True
       [ProdNext, Cancel, SelectCtxDone] demo_world []
     = Some (Return (Some ContextCanceled), demo_world, [])
   \<and> (case exec demo_collab demo_cfg [ProdNext, Cancel, SelectCtxDone]
           (pool_init demo_proc [''m1'', ''m2''] demo_world []) of
      None \<Rightarrow> False
    | Some pl \<Rightarrow>
        prod pl = Returned (Some ContextCanceled) \<and> \<not> filterChClosed pl
        \<and> workers pl = [Idle, Idle]
        \<and> (case exec demo_collab demo_cfg evs pl of
              None \<Rightarrow> True
            | Some pl' \<Rightarrow> workers pl' = [Idle, Idle] \<and> \<not> filterChClosed pl'))
   \<and> (case step demo_collab demo_cfg SelectErr demo_pool of
        None \<Rightarrow> False
      | Some pl \<Rightarrow>
          prod pl = Returned (Some (NativeError demo_failed_err)) \<and> \<not> filterChClosed pl
          \<and> workers pl = workers demo_pool
          \<and> (case exec demo_collab demo_cfg [WorkerDone 1 demo_ok []] pl of
                None \<Rightarrow> False
              | Some pl1 \<Rightarrow> workers pl1 = [Exited, Idle] \<and> \<not> filterChClosed pl1
                  \<and> (case exec demo_collab demo_cfg evs pl1 of
                        None \<Rightarrow> True
                      | Some pl2 \<Rightarrow> workers pl2 ! 1 = Idle \<and> \<not> filterChClosed pl2)))"
proof (intro conjI)
  show "runBackfilling_init demo_collab demo_proc [] demo_ranges True
     = Inr (demo_cfg, [''m1'', ''m2''])"
    by (rule demo_init)
  show "runBackfilling demo_collab demo_proc [] demo_ranges True
       [ProdNext, Cancel, SelectCtxDone] demo_world []
     = Some (Return (Some ContextCanceled), demo_world, [])"
    by (simp add: runBackfilling_def demo_init)
       (simp add: demo_defs pool_init_def buildMatchWithFilter_def replicate_two)
  obtain pl where pl: "exec demo_collab demo_cfg [ProdNext, Cancel, SelectCtxDone]
           (pool_init demo_proc [''m1'', ''m2''] demo_world []) = Some pl"
    and r: "prod pl = Returned (Some ContextCanceled)" and c: "\<not> filterChClosed pl"
    and w: "workers pl = [Idle, Idle]"
    by (simp add: demo_defs pool_init_def buildMatchWithFilter_def replicate_two)
  have "workers pl' = [Idle, Idle] \<and> \<not> filterChClosed pl'"
    if e: "exec demo_collab demo_cfg evs pl = Some pl'" for pl'
  proof -
    from exec_returned [OF r e] c w have "\<not> filterChClosed pl'" "length (workers pl') = 2"
      by simp_all
    moreover have "workers pl' ! 0 = Idle"
      by (rule exec_idle_stays [OF r c _ _ e]) (simp_all add: w)
    moreover have "workers pl' ! 1 = Idle"
      by (rule exec_idle_stays [OF r c _ _ e]) (simp_all add: w)
    ultimately show ?thesis by (simp add: two_idle)
  qed
  with pl r c w show "case exec demo_collab demo_cfg [ProdNext, Cancel, SelectCtxDone]
           (pool_init demo_proc [''m1'', ''m2''] demo_world []) of
      None \<Rightarrow> False
    | Some pl \<Rightarrow>
        prod pl = Returned (Some ContextCanceled) \<and> \<not> filterChClosed pl
        \<and> workers pl = [Idle, Idle]
        \<and> (case exec demo_collab demo_cfg evs pl of
              None \<Rightarrow> True
            | Some pl' \<Rightarrow> workers pl' = [Idle, Idle] \<and> \<not> filterChClosed pl')"
    by (auto split: option.splits)
next
  obtain pl where pl: "step demo_collab demo_cfg SelectErr demo_pool = Some pl"
    and r: "prod pl = Returned (Some (NativeError demo_failed_err))"
    and c: "\<not> filterChClosed pl" and w: "workers pl = workers demo_pool"
    by (simp add: demo_pool_def demo_ranges_def)
  obtain pl1 where pl1: "exec demo_collab demo_cfg [WorkerDone 1 demo_ok []] pl = Some pl1"
    and w1: "workers pl1 = [Exited, Idle]"
    using w by (simp add: demo_pool_def demo_defs do_def Retry_def runSingle_def Let_def)
  from exec_returned [OF r pl1] c
  have r1: "prod pl1 = Returned (Some (NativeError demo_failed_err))"
    and c1: "\<not> filterChClosed pl1" by simp_all
  have "workers pl2 ! 1 = Idle \<and> \<not> filterChClosed pl2"
    if e: "exec demo_collab demo_cfg evs pl1 = Some pl2" for pl2
  proof -
    have "workers pl2 ! 1 = Idle"
      by (rule exec_idle_stays [OF r1 c1 _ _ e]) (simp_all add: w1)
    with exec_returned [OF r1 e] c1 show ?thesis by simp
  qed
  with pl r c w pl1 w1 c1 show "case step demo_collab demo_cfg SelectErr demo_pool of
        None \<Rightarrow> False
      | Some pl \<Rightarrow>
          prod pl = Returned (Some (NativeError demo_failed_err)) \<and> \<not> filterChClosed pl
          \<and> workers pl = workers demo_pool
          \<and> (case exec demo_collab demo_cfg [WorkerDone 1 demo_ok []] pl of
                None \<Rightarrow> False
              | Some pl1 \<Rightarrow> workers pl1 = [Exited, Idle] \<and> \<not> filterChClosed pl1
                  \<and> (case exec demo_collab demo_cfg evs pl1 of
                        None \<Rightarrow> True
                      | Some pl2 \<Rightarrow> workers pl2 ! 1 = Idle \<and> \<not> filterChClosed pl2))"
    by (auto split: option.splits)
qed

subsection \<open>A base filter that cannot be parsed\<close>

lemma buildMatchWithFilter_fails:
  "NewLabelsFromString c flt = Inl e \<Longrightarrow> buildMatchWithFilter c flt s = Inl e"
  by (simp add: buildMatchWithFilter_def)

lemma list_all_update:
  "list_all P xs \<Longrightarrow> P y \<Longrightarrow> list_all P (xs[i := y])"
  by (induction xs arbitrary: i) (auto split: nat.splits)

lemma skip_inv_step:
  assumes f: "NewLabelsFromString c (Match (pfilter (proc g))) = Inl e"
    and inv: "skip_inv e w tr n pl" and s: "step c g ev pl = Some pl'"
  shows "skip_inv e w tr n pl'"
proof (cases ev)
  case ProdNext
  then show ?thesis
    using inv s buildMatchWithFilter_fails [OF f]
    by (auto simp: skip_inv_def replicate_app_Cons_same split: if_splits list.splits)
next
  case (WorkerDone i a rest)
  then show ?thesis
    using inv s
    by (auto simp: skip_inv_def list_all_length split: if_splits worker.splits)
next
  case (WorkerExit i)
  then show ?thesis
    using inv s by (auto simp: skip_inv_def list_all_update split: if_splits)
qed (use inv s in \<open>auto simp: skip_inv_def split: if_splits list.splits\<close>)

lemma skip_inv_exec_to_return:
  assumes f: "NewLabelsFromString c (Match (pfilter (proc g))) = Inl e"
  shows "skip_inv e w tr n pl \<Longrightarrow> exec_to_return c g evs pl = Some pl'
    \<Longrightarrow> skip_inv e w tr n pl'"
proof (induction evs arbitrary: pl)
  case Nil
  then show ?case by (auto split: producer.splits)
next
  case (Cons ev evs)
  show ?case
  proof (cases "\<exists>r. prod pl = Returned r")
    case True
    with Cons.prems show ?thesis by auto
  next
    case False
    with Cons.prems(2) obtain pl1 where s: "step c g ev pl = Some pl1"
      and e: "exec_to_return c g evs pl1 = Some pl'"
      by (cases "prod pl") (auto split: option.splits)
    from Cons.IH [OF skip_inv_step [OF f Cons.prems(1) s] e] show ?thesis .
  qed
qed

lemma skip_inv_init: "skip_inv e w tr (length ms) (pool_init p ms w tr)"
  by (simp add: skip_inv_def pool_init_def list_all_length)

lemma prod_skips_all:
  assumes f: "NewLabelsFromString c (Match (pfilter (proc g))) = Inl e"
  shows "prod pl = Producing \<Longrightarrow> rangesLeft pl = [] \<Longrightarrow> metricsLeft pl = ms \<Longrightarrow>
    exec_to_return c g (replicate (length ms) ProdNext @ rest) pl
    = exec_to_return c g rest
        (pl\<lparr>metricsLeft := [],
            pworld := (pworld pl)\<lparr>errlog := errlog (pworld pl)
                        @ replicate (length ms) (LogBuildFilters e)\<rparr>\<rparr>)"
proof (induction ms arbitrary: pl)
  case Nil
  then have "pl\<lparr>metricsLeft := []\<rparr> = pl" by (cases pl) simp
  then show ?case by simp
next
  case (Cons s ss)
  let ?pl1 = "pl\<lparr>metricsLeft := ss,
     pworld := (pworld pl)\<lparr>errlog := errlog (pworld pl) @ [LogBuildFilters e]\<rparr>\<rparr>"
  have st: "step c g ProdNext pl = Some ?pl1"
    using Cons.prems buildMatchWithFilter_fails [OF f] by simp
  have "exec_to_return c g (replicate (length (s # ss)) ProdNext @ rest) pl
      = exec_to_return c g (replicate (length ss) ProdNext @ rest) ?pl1"
    using Cons.prems(1) st by simp
  also have "\<dots> = exec_to_return c g rest
        (?pl1\<lparr>metricsLeft := [],
            pworld := (pworld ?pl1)\<lparr>errlog := errlog (pworld ?pl1)
                        @ replicate (length ss) (LogBuildFilters e)\<rparr>\<rparr>)"
    using Cons.prems by (intro Cons.IH) simp_all
  finally show ?case by (simp add: replicate_app_Cons_same)
qed

lemma workers_exit_all:
  "prod pl = Waiting \<Longrightarrow> filterChClosed pl
   \<Longrightarrow> workers pl = replicate j Exited @ replicate k Idle \<Longrightarrow>
   exec_to_return c g (map WorkerExit [j..<j + k] @ rest) pl
   = exec_to_return c g rest (pl\<lparr>workers := replicate (j + k) Exited\<rparr>)"
proof (induction k arbitrary: j pl)
  case 0
  then have "pl\<lparr>workers := replicate j Exited\<rparr> = pl" by (cases pl) simp
  then show ?case by simp
next
  case (Suc k)
  let ?pl1 = "pl\<lparr>workers := replicate (Suc j) Exited @ replicate k Idle\<rparr>"
  have upd: "(replicate j Exited @ replicate (Suc k) Idle)[j := Exited]
      = replicate (Suc j) Exited @ replicate k Idle"
    by (simp add: list_update_append replicate_append_same)
  have st: "step c g (WorkerExit j) pl = Some ?pl1"
    using Suc.prems upd by (simp add: nth_append)
  have up: "[j..<j + Suc k] = j # [Suc j..<Suc j + k]"
    using upt_conv_Cons [of j "j + Suc k"] by simp
  have "exec_to_return c g (map WorkerExit [j..<j + Suc k] @ rest) pl
      = exec_to_return c g (map WorkerExit [Suc j..<Suc j + k] @ rest) ?pl1"
    unfolding up using Suc.prems(1) st by simp
  also have "\<dots> = exec_to_return c g rest (?pl1\<lparr>workers := replicate (Suc j + k) Exited\<rparr>)"
    using Suc.prems by (intro Suc.IH) simp_all
  finally show ?case by simp
qed

lemma all_exited_replicate: "all_exited (replicate n Exited)"
  by (induction n) simp_all

lemma init_proc:
  "runBackfilling_init c p t ranges silent = Inr (g, ms) \<Longrightarrow> proc g = p \<and> 0 \<le> cc p"
  by (auto simp: runBackfilling_init_def split: sum.splits if_splits)

lemma started_pool_init: "started (pool_init p ms w tr) = tr"
  by (simp add: pool_init_def)

lemma skip_schedule_returns:
  assumes f: "NewLabelsFromString c (Match (pfilter (proc g))) = Inl e"
  shows "exec_to_return c g (skip_schedule (length ms) (nat (cc p))) (pool_init p ms w tr)
    = Some ((pool_init p ms w tr)
        \<lparr>metricsLeft := [],
         pworld := w\<lparr>errlog := errlog w @ replicate (length ms) (LogBuildFilters e)\<rparr>,
         filterChClosed := True, workers := replicate (nat (cc p)) Exited,
         errChClosed := True, prod := Returned None\<rparr>)"
proof -
  let ?k = "nat (cc p)"
  let ?pl0 = "pool_init p ms w tr"
  let ?pl1 = "?pl0\<lparr>metricsLeft := [],
      pworld := (pworld ?pl0)\<lparr>errlog := errlog (pworld ?pl0)
                        @ replicate (length ms) (LogBuildFilters e)\<rparr>\<rparr>"
  let ?pl2 = "?pl1\<lparr>filterChClosed := True, prod := Waiting\<rparr>"
  let ?pl3 = "?pl2\<lparr>workers := replicate (0 + ?k) Exited\<rparr>"
  have sch: "skip_schedule (length ms) ?k
      = replicate (length ms) ProdNext @ (ProdNext # map WorkerExit [0..<?k] @ [Join])"
    by (simp add: skip_schedule_def replicate_app_Cons_same)
  have "exec_to_return c g (skip_schedule (length ms) ?k) ?pl0
      = exec_to_return c g (replicate (length ms) ProdNext
          @ (ProdNext # map WorkerExit [0..<?k] @ [Join])) ?pl0"
    unfolding sch ..
  also have "\<dots> = exec_to_return c g (ProdNext # map WorkerExit [0..<?k] @ [Join]) ?pl1"
    by (rule prod_skips_all [OF f]) (simp_all add: pool_init_def)
  also have "\<dots> = exec_to_return c g (map WorkerExit [0..<0 + ?k] @ [Join]) ?pl2"
    by (simp add: pool_init_def)
  also have "\<dots> = exec_to_return c g [Join] ?pl3"
    by (rule workers_exit_all) (simp_all add: pool_init_def)
  also have "\<dots> = Some (?pl3\<lparr>errChClosed := True, prod := Returned None\<rparr>)"
    by (simp add: pool_init_def all_exited_replicate)
  finally show ?thesis by (simp add: pool_init_def)
qed

text \<open>
  C10. When \<^verbatim>\<open>buildMatchWithFilter\<close> fails for a metric, the base filter is what
  cannot be parsed, so it fails for every metric. A call that has found the metrics
  \<open>ms\<close> then returns \<^verbatim>\<open>nil\<close>: under the schedule \<open>skip_schedule\<close> it does return,
  and under every schedule that takes it to its return the result is \<^verbatim>\<open>nil\<close>, no
  transfer has been started, the stats are unchanged, and the log has gained one
  "failed to build export filters" line for each metric and nothing else.
\<close>

theorem build_failure_skips_metrics:
  assumes "buildMatchWithFilter c (Match (pfilter p)) s = Inl e"
    and "runBackfilling_init c p t ranges silent = Inr (g, ms)"
  shows "runBackfilling c p t ranges silent (skip_schedule (length ms) (nat (cc p))) w tr
      = Some (Return None,
              w\<lparr>errlog := errlog w @ replicate (length ms) (LogBuildFilters e)\<rparr>, tr)
    \<and> (\<forall>sched out w' tr'.
          runBackfilling c p t ranges silent sched w tr = Some (out, w', tr')
          \<longrightarrow> out = Return None \<and> tr' = tr
              \<and> w' = w\<lparr>errlog := errlog w @ replicate (length ms) (LogBuildFilters e)\<rparr>)"
proof -
  from assms(1) have f0: "NewLabelsFromString c (Match (pfilter p)) = Inl e"
    by (auto simp: buildMatchWithFilter_def split: sum.splits)
  from init_proc [OF assms(2)] have pg: "proc g = p" by simp
  from f0 pg have f: "NewLabelsFromString c (Match (pfilter (proc g))) = Inl e" by simp
  have returns: "runBackfilling c p t ranges silent (skip_schedule (length ms) (nat (cc p))) w tr
      = Some (Return None,
              w\<lparr>errlog := errlog w @ replicate (length ms) (LogBuildFilters e)\<rparr>, tr)"
    by (simp add: runBackfilling_def assms(2) skip_schedule_returns [OF f] started_pool_init)
  have "out = Return None \<and> tr' = tr
     \<and> w' = w\<lparr>errlog := errlog w @ replicate (length ms) (LogBuildFilters e)\<rparr>"
    if r: "runBackfilling c p t ranges silent sched w tr = Some (out, w', tr')"
    for sched out w' tr'
  proof -
  from r obtain pl r' where e: "exec_to_return c g sched (pool_init p ms w tr) = Some pl"
    and p: "prod pl = Returned r'" and o: "out = Return r'" "w' = pworld pl" "tr' = started pl"
    by (auto simp: runBackfilling_def assms(2) split: option.splits producer.splits)
  from skip_inv_exec_to_return [OF f skip_inv_init e]
  have inv: "skip_inv e w tr (length ms) pl" .
  with p have "r' = None" "started pl = tr" "wstats (pworld pl) = wstats w"
    "errlog (pworld pl) = errlog w @ replicate (length ms) (LogBuildFilters e)"
    by (auto simp: skip_inv_def)
  then show ?thesis
    using o by (cases w; cases "pworld pl") simp
  qed
  with returns show ?thesis by blast
qed

lemma demo_badfilter_init:
  "runBackfilling_init demo_collab demo_badfilter [] demo_ranges True
   = Inr (demo_cfg\<lparr>proc := demo_badfilter\<rparr>, [''m1'', ''m2''])"
  by (simp add: runBackfilling_init_def urls_def demo_collab_def demo_proc_def demo_cfg_def
      demo_badfilter_def nativeImportAddr_def nativeExportAddr_def)

theorem build_failure_skips_metrics_witness:
  "buildMatchWithFilter demo_collab (Match (pfilter demo_badfilter)) ''m1''
     = Inl (Collab ''bad filter'')
   \<and> runBackfilling_init demo_collab demo_badfilter [] demo_ranges True
     = Inr (demo_cfg\<lparr>proc := demo_badfilter\<rparr>, [''m1'', ''m2''])
   \<and> runBackfilling demo_collab demo_badfilter [] demo_ranges True
       [ProdNext, ProdNext, ProdNext, WorkerExit 0, WorkerExit 1, Join] demo_world []
     = Some (Return None,
             demo_world\<lparr>errlog := [LogBuildFilters (Collab ''bad filter''),
                                   LogBuildFilters (Collab ''bad filter'')]\<rparr>, [])"
proof -
  have h1: "buildMatchWithFilter demo_collab (Match (pfilter demo_badfilter)) ''m1''
     = Inl (Collab ''bad filter'')"
    by (simp add: buildMatchWithFilter_def demo_collab_def demo_badfilter_def)
  have s: "skip_schedule (length [''m1'', ''m2'']) (nat (cc demo_badfilter))
     = [ProdNext, ProdNext, ProdNext, WorkerExit 0, WorkerExit 1, Join]"
    by (simp add: skip_schedule_def demo_badfilter_def demo_proc_def eval_nat_numeral
        upt_conv_Cons)
  from build_failure_skips_metrics [OF h1 demo_badfilter_init, of demo_world "[]", unfolded s]
  show ?thesis using h1 demo_badfilter_init
    by (simp add: demo_world_def)
qed

end
